theory Spec2Isabelle
  imports Complex_Main "HOL-Library.Sublist" "HOL-Library.Multiset"
begin

section \<open>Python values\<close>

text \<open>
  The views of \<open>ranking_engine/api_views.py\<close> read dynamically typed values from
  \<open>request.data\<close> and from the records of the supplier directory. A value is one of the
  JSON shapes.
\<close>

subsection \<open>Floats\<close>

text \<open>
  A Python float is a finite number, one of the two infinities, or NaN. Arithmetic on
  finite numbers is exact here (no rounding, no overflow to an infinity, and an integer
  of any size converts to a float); the special values follow IEEE 754: NaN absorbs every
  operation, and no comparison with NaN holds.
\<close>

datatype pyfloat = Fin real | PInf | NInf | NaN

fun fneg :: "pyfloat \<Rightarrow> pyfloat" where
  "fneg (Fin a) = Fin (- a)"
| "fneg PInf = NInf"
| "fneg NInf = PInf"
| "fneg NaN = NaN"

fun fadd :: "pyfloat \<Rightarrow> pyfloat \<Rightarrow> pyfloat" where
  "fadd NaN y = NaN"
| "fadd x NaN = NaN"
| "fadd (Fin a) (Fin b) = Fin (a + b)"
| "fadd PInf NInf = NaN"
| "fadd NInf PInf = NaN"
| "fadd PInf y = PInf"
| "fadd x PInf = PInf"
| "fadd NInf y = NInf"
| "fadd x NInf = NInf"

definition fsub :: "pyfloat \<Rightarrow> pyfloat \<Rightarrow> pyfloat" where
  "fsub x y = fadd x (fneg y)"

fun fmul :: "pyfloat \<Rightarrow> pyfloat \<Rightarrow> pyfloat" where
  "fmul NaN y = NaN"
| "fmul x NaN = NaN"
| "fmul (Fin a) (Fin b) = Fin (a * b)"
| "fmul PInf (Fin b) = (if b = 0 then NaN else if 0 < b then PInf else NInf)"
| "fmul NInf (Fin b) = (if b = 0 then NaN else if 0 < b then NInf else PInf)"
| "fmul (Fin a) PInf = (if a = 0 then NaN else if 0 < a then PInf else NInf)"
| "fmul (Fin a) NInf = (if a = 0 then NaN else if 0 < a then NInf else PInf)"
| "fmul PInf PInf = PInf"
| "fmul PInf NInf = NInf"
| "fmul NInf PInf = NInf"
| "fmul NInf NInf = PInf"

text \<open>\<open>x < y\<close> on floats.\<close>

fun flt :: "pyfloat \<Rightarrow> pyfloat \<Rightarrow> bool" where
  "flt NaN y = False"
| "flt x NaN = False"
| "flt (Fin a) (Fin b) = (a < b)"
| "flt NInf NInf = False"
| "flt NInf y = True"
| "flt x NInf = False"
| "flt PInf y = False"
| "flt x PInf = True"

text \<open>
  The builtins \<open>max(a, b)\<close> and \<open>min(a, b)\<close> keep their first argument unless the second
  one compares strictly greater (smaller): \<open>max(nan, 1)\<close> and \<open>min(nan, 10)\<close> are NaN.
\<close>

definition py_max :: "pyfloat \<Rightarrow> pyfloat \<Rightarrow> pyfloat" where
  "py_max a b = (if flt a b then b else a)"

definition py_min :: "pyfloat \<Rightarrow> pyfloat \<Rightarrow> pyfloat" where
  "py_min a b = (if flt b a then b else a)"

subsection \<open>Dynamically typed values\<close>

datatype pyval =
    PNone
  | PBool bool
  | PInt int
  | PFloat pyfloat
  | PStr string
  | PList "pyval list"
  | PDict "(string \<times> pyval) list"

text \<open>Python's truth value of an object, as used by \<open>not\<close>, \<open>all\<close>, \<open>or\<close> and \<open>if\<close>.\<close>

fun truthy :: "pyval \<Rightarrow> bool" where
  "truthy PNone = False"
| "truthy (PBool b) = b"
| "truthy (PInt i) = (i \<noteq> 0)"
| "truthy (PFloat x) = (x \<noteq> Fin 0)"
| "truthy (PStr s) = (s \<noteq> [])"
| "truthy (PList xs) = (xs \<noteq> [])"
| "truthy (PDict kvs) = (kvs \<noteq> [])"

definition py_all :: "pyval list \<Rightarrow> bool" where
  "py_all xs = list_all truthy xs"

definition py_or :: "pyval \<Rightarrow> pyval \<Rightarrow> pyval" where
  "py_or a b = (if truthy a then a else b)"

text \<open>
  Exceptions are values. \<open>ServiceError\<close> stands for whatever an external collaborator
  raises; \<open>NegativeIndexing\<close> is what slicing a queryset with a negative bound raises.
\<close>

datatype exn =
    TypeError
  | ValueError
  | OverflowError
  | AttributeError
  | DoesNotExist
  | MultipleObjectsReturned
  | NegativeIndexing
  | ServiceError string

text \<open>
  The builtins whose result depends on the text of a string are parameters: \<open>str()\<close> as
  used inside f-strings, the parsers behind \<open>float(s)\<close> and \<open>int(s)\<close> (\<open>None\<close> is
  \<open>ValueError\<close>), and \<open>str.lower\<close>. \<open>float(s)\<close> may return any float: in Python
  \<open>float("nan")\<close> is NaN and \<open>float("inf")\<close> is infinite.
\<close>

record builtins =
  str_of :: "pyval \<Rightarrow> string"
  str_exn :: "exn \<Rightarrow> string"
  float_of_str :: "string \<Rightarrow> pyfloat option"
  int_of_str :: "string \<Rightarrow> int option"
  lower :: "string \<Rightarrow> string"

fun py_float :: "builtins \<Rightarrow> pyval \<Rightarrow> exn + pyfloat" where
  "py_float py PNone = Inl TypeError"
| "py_float py (PBool b) = Inr (Fin (if b then 1 else 0))"
| "py_float py (PInt i) = Inr (Fin (of_int i))"
| "py_float py (PFloat x) = Inr x"
| "py_float py (PStr s) = (case float_of_str py s of None \<Rightarrow> Inl ValueError | Some x \<Rightarrow> Inr x)"
| "py_float py (PList xs) = Inl TypeError"
| "py_float py (PDict kvs) = Inl TypeError"

text \<open>
  \<open>int(x)\<close>: a finite float is truncated towards zero, NaN is a \<open>ValueError\<close>, an
  infinity an \<open>OverflowError\<close>.
\<close>

fun py_int :: "builtins \<Rightarrow> pyval \<Rightarrow> exn + int" where
  "py_int py PNone = Inl TypeError"
| "py_int py (PBool b) = Inr (if b then 1 else 0)"
| "py_int py (PInt i) = Inr i"
| "py_int py (PFloat (Fin r)) = Inr (if 0 \<le> r then \<lfloor>r\<rfloor> else \<lceil>r\<rceil>)"
| "py_int py (PFloat NaN) = Inl ValueError"
| "py_int py (PFloat x) = Inl OverflowError"
| "py_int py (PStr s) = (case int_of_str py s of None \<Rightarrow> Inl ValueError | Some i \<Rightarrow> Inr i)"
| "py_int py (PList xs) = Inl TypeError"
| "py_int py (PDict kvs) = Inl TypeError"

text \<open>\<open>len(x)\<close>.\<close>

fun py_len :: "pyval \<Rightarrow> exn + nat" where
  "py_len (PStr s) = Inr (length s)"
| "py_len (PList xs) = Inr (length xs)"
| "py_len (PDict kvs) = Inr (length kvs)"
| "py_len v = Inl TypeError"

text \<open>\<open>d.get(k, default)\<close>; an object that is no dict has no \<open>get\<close>.\<close>

fun py_get :: "pyval \<Rightarrow> string \<Rightarrow> pyval \<Rightarrow> exn + pyval" where
  "py_get (PDict kvs) k d = Inr (case map_of kvs k of None \<Rightarrow> d | Some v \<Rightarrow> v)"
| "py_get v k d = Inl AttributeError"

text \<open>\<open>request.data.get(k, default)\<close> on the request's own mapping.\<close>

definition data_get :: "(string \<rightharpoonup> pyval) \<Rightarrow> string \<Rightarrow> pyval \<Rightarrow> pyval" where
  "data_get data k d = (case data k of None \<Rightarrow> d | Some v \<Rightarrow> v)"

section \<open>Persistent objects\<close>

text \<open>
  \<open>QLearningState\<close> and \<open>QLearningAction\<close> are stored objects with a primary key and a
  \<open>name\<close>; a \<open>QTableEntry\<close> row refers to one of each. The table is the list of its rows.
  The values held in the table, and the rewards and scores that the agent and the
  environment return, are taken to be finite numbers.
\<close>

record model_obj =
  pk :: nat
  name :: string

type_synonym qstate = model_obj
type_synonym qaction = model_obj

record qentry =
  entry_state :: qstate
  entry_action :: qaction
  q_value :: real
  update_count :: nat

type_synonym qtable = "qentry list"

text \<open>
  \<open>QTableEntry.objects.get(state=s, action=a)\<close>: the one matching row, \<open>DoesNotExist\<close>
  when there is none, \<open>MultipleObjectsReturned\<close> when there are several. The action
  may be \<open>None\<close>, which no row matches.
\<close>

definition objects_get :: "qtable \<Rightarrow> qstate \<Rightarrow> qaction option \<Rightarrow> exn + qentry" where
  "objects_get qt s a =
     (case filter (\<lambda>e. entry_state e = s \<and> Some (entry_action e) = a) qt of
        [] \<Rightarrow> Inl DoesNotExist
      | [e] \<Rightarrow> Inr e
      | _ \<Rightarrow> Inl MultipleObjectsReturned)"

record metrics =
  quality_score :: pyfloat
  delivery_score :: pyfloat
  price_score :: pyfloat
  service_score :: pyfloat
  overall_score :: pyfloat

text \<open>The ranking object that the agent returns for a supplier.\<close>

record ranking =
  ranking_supplier_id :: int
  ranking_supplier_name :: string
  ranking_overall_score :: real
  ranking_state :: qstate

text \<open>\<open>Response(body, status=...)\<close>.\<close>

datatype 'b response = Response (body: 'b) (status: nat)

section \<open>External collaborators\<close>

text \<open>
  \<open>SupplierService\<close>, \<open>StateMapper\<close>, \<open>SupplierEnvironment\<close>, \<open>MetricsService\<close>,
  \<open>WarehouseServiceConnector\<close> and the methods of \<open>SupplierRankingAgent\<close> are not part
  of the module; they are parameters. Each may raise. Following sections 3 and 5 of the
  specification, the mapper, the environment and the lookups are value computers that own
  no mutable data, and the Q-table is written only by the agent: \<open>learn\<close> takes the table
  and returns it updated, together with the new value or the exception it raised.
  Constructing these objects is taken to succeed and to write nothing.

  The agent's ranking of one supplier comes in two parameters: \<open>rank_exploit\<close> is what it
  computes from the supplier and the stored table without any random choice,
  \<open>rank_explore\<close> what it computes when it may also draw from the random source (a
  \<open>nat\<close> stands for the state of that source). The boolean is \<open>update_ranking\<close>.
  \<open>train_iteration i ids\<close> is the \<open>i\<close>-th learning update of a batch restricted to the
  suppliers \<open>ids\<close>: it returns the updated table or fails and leaves the table as it was.
\<close>

record services =
  get_supplier :: "pyval \<Rightarrow> exn + pyval"
  get_state_from_metrics :: "metrics \<Rightarrow> exn + qstate"
  get_actions :: "qstate \<Rightarrow> exn + qaction list"
  get_reward :: "pyval \<Rightarrow> qstate \<Rightarrow> qaction \<Rightarrow> exn + real"
  next_state :: "pyval \<Rightarrow> qaction \<Rightarrow> exn + qstate"
  learn :: "qstate \<Rightarrow> qaction \<Rightarrow> real \<Rightarrow> qstate \<Rightarrow> qtable \<Rightarrow> (exn + real) \<times> qtable"
  calculate_combined_metrics :: "pyval \<Rightarrow> exn + metrics"
  get_suppliers_by_product :: "string \<Rightarrow> exn + pyval list"
  rank_exploit :: "pyval \<Rightarrow> bool \<Rightarrow> qtable \<Rightarrow> exn + (qaction option \<times> real \<times> ranking option)"
  rank_explore :: "nat \<Rightarrow> pyval \<Rightarrow> bool \<Rightarrow> qtable \<Rightarrow> exn + (qaction option \<times> real \<times> ranking option)"
  train_iteration :: "nat \<Rightarrow> pyval \<Rightarrow> qtable \<Rightarrow> exn + qtable"

section \<open>FeedbackView.post\<close>

text \<open>The metrics built from the feedback, lines 59 to 73.\<close>

definition create_metrics :: "builtins \<Rightarrow> pyval \<Rightarrow> pyval \<Rightarrow> pyval \<Rightarrow> exn + metrics" where
  "create_metrics py quality_rating delivery_time_days issues =
     (case py_float py quality_rating of Inl e \<Rightarrow> Inl e | Inr q \<Rightarrow>
     (case py_float py (py_or delivery_time_days (PInt 1)) of Inl e \<Rightarrow> Inl e | Inr d \<Rightarrow>
     (case py_float py issues of Inl e \<Rightarrow> Inl e | Inr i \<Rightarrow>
        (let qs = py_min (py_max (fmul q (Fin 10)) (Fin 1)) (Fin 10);
             ds = py_min (py_max (fsub (Fin 10) (py_min d (Fin 10))) (Fin 1)) (Fin 10);
             ps = Fin 7;
             ss = py_min (py_max (fsub (Fin 10) (fmul i (Fin 2))) (Fin 1)) (Fin 10)
         in Inr \<lparr> quality_score = qs, delivery_score = ds, price_score = ps,
                  service_score = ss,
                  overall_score =
                    fadd (fadd (fadd (fmul qs (Fin 0.25)) (fmul ds (Fin 0.25)))
                               (fmul ps (Fin 0.25)))
                         (fmul ss (Fin 0.25)) \<rparr>))))"

text \<open>The loop of lines 91 to 95: the first action whose name starts with the prefix.\<close>

definition choose_action :: "qaction list \<Rightarrow> qaction option" where
  "choose_action actions = find (\<lambda>a. prefix ''RANK_TIER_'' (name a)) actions"

text \<open>
  The chained fallback for the company name. Python evaluates the default arguments
  before each \<open>get\<close>, so the innermost lookup runs (and may raise) whatever the outer
  keys hold.
\<close>

definition company_name_of :: "builtins \<Rightarrow> pyval \<Rightarrow> pyval \<Rightarrow> exn + pyval" where
  "company_name_of py supplier supplier_id =
     (case py_get supplier ''user'' (PDict []) of Inl e \<Rightarrow> Inl e | Inr u \<Rightarrow>
     (case py_get u ''name'' (PStr (''Unknown Supplier '' @ str_of py supplier_id)) of
        Inl e \<Rightarrow> Inl e | Inr n3 \<Rightarrow>
     (case py_get supplier ''name'' n3 of Inl e \<Rightarrow> Inl e | Inr n2 \<Rightarrow>
        py_get supplier ''company_name'' n2)))"

datatype feedback_body =
    FbError string
  | FbOk (fb_message: string) (fb_q_value: real) (fb_state: string) (fb_action: string)
         (fb_supplier_id: pyval) (fb_company_name: pyval) (fb_product_id: pyval)
         (fb_city: pyval) (fb_metrics: metrics)

definition required_fields_error :: "feedback_body response" where
  "required_fields_error =
     Response (FbError ''supplier_id, product_id, and quality_rating are required fields'') 400"

definition supplier_not_found :: "builtins \<Rightarrow> pyval \<Rightarrow> feedback_body response" where
  "supplier_not_found py supplier_id =
     Response (FbError (''Supplier with ID '' @ str_of py supplier_id @ '' not found'')) 404"

definition no_suitable_action :: "feedback_body response" where
  "no_suitable_action = Response (FbError ''No suitable action found for feedback'') 400"

text \<open>
  The view has no exception handler: an exception leaves it (\<open>Inl\<close>). The second
  component is the Q-table after the request.
\<close>

definition FeedbackView_post ::
  "builtins \<Rightarrow> services \<Rightarrow> (string \<rightharpoonup> pyval) \<Rightarrow> qtable \<Rightarrow> (exn + feedback_body response) \<times> qtable" where
  "FeedbackView_post py sv data qt =
     (let supplier_id = data_get data ''supplier_id'' PNone;
          product_id = data_get data ''product_id'' PNone;
          city = data_get data ''city'' PNone;
          delivery_time_days = data_get data ''delivery_time_days'' PNone;
          quality_rating = data_get data ''quality_rating'' PNone;
          issues = data_get data ''issues'' (PInt 0)
      in
      if \<not> py_all [supplier_id, product_id, quality_rating] then (Inr required_fields_error, qt)
      else (case get_supplier sv supplier_id of Inl e \<Rightarrow> (Inl e, qt) | Inr supplier \<Rightarrow>
      if \<not> truthy supplier then (Inr (supplier_not_found py supplier_id), qt)
      else (case create_metrics py quality_rating delivery_time_days issues of
        Inl e \<Rightarrow> (Inl e, qt) | Inr m \<Rightarrow>
      (case get_state_from_metrics sv m of Inl e \<Rightarrow> (Inl e, qt) | Inr state \<Rightarrow>
      (case get_actions sv state of Inl e \<Rightarrow> (Inl e, qt) | Inr actions \<Rightarrow>
      (case choose_action actions of
        None \<Rightarrow> (Inr no_suitable_action, qt)
      | Some action \<Rightarrow>
      (case get_reward sv supplier_id state action of Inl e \<Rightarrow> (Inl e, qt) | Inr reward \<Rightarrow>
      (case next_state sv supplier_id action of Inl e \<Rightarrow> (Inl e, qt) | Inr nxt \<Rightarrow>
      (case learn sv state action reward nxt qt of
        (Inl e, qt') \<Rightarrow> (Inl e, qt')
      | (Inr new_q_value, qt') \<Rightarrow>
      (case company_name_of py supplier supplier_id of
        Inl e \<Rightarrow> (Inl e, qt')
      | Inr company_name \<Rightarrow>
        (Inr (Response
               (FbOk ''Feedback received and Q-table updated'' new_q_value (name state)
                     (name action) supplier_id company_name product_id city m) 200),
         qt')))))))))))"

section \<open>SupplierRankingView.get\<close>

text \<open>
  Modelled from the spec: \<open>SupplierRankingAgent.rank_supplier\<close> is not under the source
  tree. Section 4.4: exploration, the random choice of a candidate action, is never used
  when \<open>exploration=False\<close> is requested; the ranking is then computed from the
  supplier's state and the stored Q-values alone.
\<close>

definition rank_supplier ::
  "services \<Rightarrow> nat \<Rightarrow> pyval \<Rightarrow> bool \<Rightarrow> bool \<Rightarrow> qtable
     \<Rightarrow> exn + (qaction option \<times> real \<times> ranking option)" where
  "rank_supplier sv rng supplier_id update_ranking exploration qt =
     (if exploration then rank_explore sv rng supplier_id update_ranking qt
      else rank_exploit sv supplier_id update_ranking qt)"

record ranked_supplier =
  r_supplier_id :: int
  r_company_name :: string
  r_score :: real
  r_state :: string
  r_best_action :: string
  r_q_value :: real
  r_city :: pyval

text \<open>\<open>supplier.get("city") or supplier.get("user", {}).get("city")\<close>, lines 168 to 171.\<close>

definition supplier_city_of :: "pyval \<Rightarrow> exn + pyval" where
  "supplier_city_of supplier =
     (case py_get supplier ''city'' PNone of Inl e \<Rightarrow> Inl e | Inr c \<Rightarrow>
        if truthy c then Inr c
        else (case py_get supplier ''user'' (PDict []) of Inl e \<Rightarrow> Inl e | Inr u \<Rightarrow>
                py_get u ''city'' PNone))"

text \<open>
  The condition of line 172, \<open>city and supplier_city and supplier_city.lower() != city.lower()\<close>.
  Only a string has \<open>lower\<close>.
\<close>

definition city_differs :: "builtins \<Rightarrow> string option \<Rightarrow> pyval \<Rightarrow> exn + bool" where
  "city_differs py city supplier_city =
     (case city of None \<Rightarrow> Inr False | Some c \<Rightarrow>
        if c = [] then Inr False
        else if \<not> truthy supplier_city then Inr False
        else (case supplier_city of
                PStr s \<Rightarrow> Inr (lower py s \<noteq> lower py c)
              | _ \<Rightarrow> Inl AttributeError))"

text \<open>Lines 186 to 190: the stored Q-value, 0.0 when there is no entry.\<close>

definition q_value_or_default :: "qtable \<Rightarrow> qstate \<Rightarrow> qaction option \<Rightarrow> exn + real" where
  "q_value_or_default qt s a =
     (case objects_get qt s a of
        Inr e \<Rightarrow> Inr (q_value e)
      | Inl DoesNotExist \<Rightarrow> Inr 0
      | Inl e \<Rightarrow> Inl e)"

text \<open>
  One pass through the body of the loop of lines 162 to 200: \<open>Inr None\<close> is
  \<open>continue\<close>, \<open>Inr (Some r)\<close> the appended record, \<open>Inl e\<close> an exception.
\<close>

definition rank_one ::
  "builtins \<Rightarrow> services \<Rightarrow> nat \<Rightarrow> string option \<Rightarrow> qtable \<Rightarrow> pyval \<Rightarrow> exn + ranked_supplier option" where
  "rank_one py sv rng city qt supplier_id =
     (case get_supplier sv supplier_id of Inl e \<Rightarrow> Inl e | Inr supplier \<Rightarrow>
      if \<not> truthy supplier then Inr None
      else (case supplier_city_of supplier of Inl e \<Rightarrow> Inl e | Inr supplier_city \<Rightarrow>
      (case city_differs py city supplier_city of Inl e \<Rightarrow> Inl e | Inr differs \<Rightarrow>
      if differs then Inr None
      else (case rank_supplier sv rng supplier_id True False qt of
        Inl e \<Rightarrow> Inl e
      | Inr (action, reward, ranking) \<Rightarrow>
      (case ranking of None \<Rightarrow> Inr None | Some rk \<Rightarrow>
      (case q_value_or_default qt (ranking_state rk) action of Inl e \<Rightarrow> Inl e | Inr qv \<Rightarrow>
      (case action of None \<Rightarrow> Inl AttributeError | Some a \<Rightarrow>
        Inr (Some \<lparr> r_supplier_id = ranking_supplier_id rk,
                    r_company_name = ranking_supplier_name rk,
                    r_score = ranking_overall_score rk,
                    r_state = name (ranking_state rk),
                    r_best_action = name a,
                    r_q_value = qv,
                    r_city = supplier_city \<rparr>))))))))"

text \<open>The loop: the records are appended in the order of the candidate listing.\<close>

fun rank_all ::
  "builtins \<Rightarrow> services \<Rightarrow> nat \<Rightarrow> string option \<Rightarrow> qtable \<Rightarrow> pyval list \<Rightarrow> exn + ranked_supplier list" where
  "rank_all py sv rng city qt [] = Inr []"
| "rank_all py sv rng city qt (supplier_id # rest) =
     (case rank_one py sv rng city qt supplier_id of Inl e \<Rightarrow> Inl e | Inr r \<Rightarrow>
     (case rank_all py sv rng city qt rest of Inl e \<Rightarrow> Inl e | Inr rs \<Rightarrow>
        Inr ((case r of None \<Rightarrow> [] | Some x \<Rightarrow> [x]) @ rs)))"

text \<open>
  \<open>xs.sort(key=..., reverse=True)\<close>: the list is reversed, sorted by a stable ascending
  sort, and reversed again, so equal keys keep their original order.
\<close>

definition py_sort_reverse :: "('a \<Rightarrow> real) \<Rightarrow> 'a list \<Rightarrow> 'a list" where
  "py_sort_reverse key xs = rev (sort_key key (rev xs))"

datatype ranking_body =
    RkError string
  | RkMessage string
  | RkOk (rk_product_id: string) (rk_city: "string option") (rk_suppliers: "ranked_supplier list")
         (rk_count: nat)

definition ranking_try ::
  "builtins \<Rightarrow> services \<Rightarrow> nat \<Rightarrow> string \<Rightarrow> string option \<Rightarrow> qtable \<Rightarrow> exn + ranking_body response" where
  "ranking_try py sv rng product_id city qt =
     (case get_suppliers_by_product sv product_id of Inl e \<Rightarrow> Inl e | Inr suppliers \<Rightarrow>
      if suppliers = [] then
        Inr (Response (RkMessage (''No suppliers found for product '' @ product_id)) 200)
      else (case rank_all py sv rng city qt suppliers of Inl e \<Rightarrow> Inl e | Inr ranked \<Rightarrow>
        (let ranked_suppliers = py_sort_reverse r_score ranked
         in Inr (Response (RkOk product_id city ranked_suppliers (length ranked_suppliers)) 200))))"

definition SupplierRankingView_get ::
  "builtins \<Rightarrow> services \<Rightarrow> nat \<Rightarrow> (string \<rightharpoonup> string) \<Rightarrow> qtable \<Rightarrow> ranking_body response" where
  "SupplierRankingView_get py sv rng query_params qt =
     (let product_id = query_params ''product_id'';
          city = query_params ''city''
      in case product_id of
           None \<Rightarrow> Response (RkError ''product_id is required'') 400
         | Some p \<Rightarrow>
             if p = [] then Response (RkError ''product_id is required'') 400
             else (case ranking_try py sv rng p city qt of
                     Inr r \<Rightarrow> r
                   | Inl e \<Rightarrow>
                       Response (RkError (''Failed to get supplier rankings: '' @ str_exn py e)) 500))"

section \<open>ManualTrainingView.post\<close>

text \<open>
  \<open>@transaction.atomic\<close>: the writes of the wrapped function are committed when it
  returns and rolled back when an exception leaves it.
\<close>

definition transaction_atomic ::
  "(qtable \<Rightarrow> (exn + 'a) \<times> qtable) \<Rightarrow> qtable \<Rightarrow> (exn + 'a) \<times> qtable" where
  "transaction_atomic f qt =
     (case f qt of (Inl e, qt') \<Rightarrow> (Inl e, qt) | (Inr r, qt') \<Rightarrow> (Inr r, qt'))"

text \<open>
  Modelled from the spec: \<open>SupplierRankingAgent.batch_train\<close> is not under the source
  tree. Sections 4.4 and 7: each iteration is an independent atomic update, and a failure
  of one iteration is skipped, the remaining iterations still run. A negative count runs
  no iteration.
\<close>

definition train_one :: "services \<Rightarrow> pyval \<Rightarrow> nat \<Rightarrow> qtable \<Rightarrow> qtable" where
  "train_one sv supplier_ids i qt =
     (case train_iteration sv i supplier_ids qt of Inl e \<Rightarrow> qt | Inr qt' \<Rightarrow> qt')"

definition batch_train :: "services \<Rightarrow> int \<Rightarrow> pyval \<Rightarrow> qtable \<Rightarrow> (exn + unit) \<times> qtable" where
  "batch_train sv iterations supplier_ids qt =
     (Inr (), fold (train_one sv supplier_ids) [0..<nat iterations] qt)"

datatype supplier_count = Count nat | AllSuppliers

datatype training_body =
    TrError string
  | TrOk (tr_message: string) (tr_iterations: int) (tr_supplier_count: supplier_count)

text \<open>
  The body of the \<open>try\<close>, lines 229 to 245, over any \<open>batch_train\<close>: it returns the
  response or the exception, and the table as the calls left it.
\<close>

definition training_try ::
  "builtins \<Rightarrow> (int \<Rightarrow> pyval \<Rightarrow> qtable \<Rightarrow> (exn + unit) \<times> qtable) \<Rightarrow> (string \<rightharpoonup> pyval) \<Rightarrow> qtable
     \<Rightarrow> (exn + training_body response) \<times> qtable" where
  "training_try py bt data qt =
     (case py_int py (data_get data ''iterations'' (PInt 100)) of
        Inl e \<Rightarrow> (Inl e, qt)
      | Inr iterations \<Rightarrow>
     (let supplier_ids = data_get data ''supplier_ids'' PNone
      in case bt iterations supplier_ids qt of
           (Inl e, qt') \<Rightarrow> (Inl e, qt')
         | (Inr u, qt') \<Rightarrow>
             if truthy supplier_ids then
               (case py_len supplier_ids of
                  Inl e \<Rightarrow> (Inl e, qt')
                | Inr n \<Rightarrow>
                    (Inr (Response (TrOk ''Q-table updated with historical data'' iterations
                                         (Count n)) 200), qt'))
             else (Inr (Response (TrOk ''Q-table updated with historical data'' iterations AllSuppliers)
                          200), qt')))"

text \<open>The handler of lines 247 to 252 is inside the decorated function.\<close>

definition training_body_fn ::
  "builtins \<Rightarrow> (int \<Rightarrow> pyval \<Rightarrow> qtable \<Rightarrow> (exn + unit) \<times> qtable) \<Rightarrow> (string \<rightharpoonup> pyval) \<Rightarrow> qtable
     \<Rightarrow> (exn + training_body response) \<times> qtable" where
  "training_body_fn py bt data qt =
     (case training_try py bt data qt of
        (Inl e, qt') \<Rightarrow> (Inr (Response (TrError (''Training failed: '' @ str_exn py e)) 500), qt')
      | (Inr r, qt') \<Rightarrow> (Inr r, qt'))"

definition ManualTrainingView_post ::
  "builtins \<Rightarrow> (int \<Rightarrow> pyval \<Rightarrow> qtable \<Rightarrow> (exn + unit) \<times> qtable) \<Rightarrow> (string \<rightharpoonup> pyval) \<Rightarrow> qtable
     \<Rightarrow> (exn + training_body response) \<times> qtable" where
  "ManualTrainingView_post py bt data qt = transaction_atomic (training_body_fn py bt data) qt"

section \<open>QValueView.get\<close>

record q_value_row =
  qv_action :: string
  qv_q_value :: real
  qv_update_count :: nat

text \<open>The loop of lines 285 to 298.\<close>

fun q_values_of :: "qtable \<Rightarrow> qstate \<Rightarrow> qaction list \<Rightarrow> exn + q_value_row list" where
  "q_values_of qt state [] = Inr []"
| "q_values_of qt state (action # rest) =
     (case (case objects_get qt state (Some action) of
              Inr q_entry \<Rightarrow>
                Inr \<lparr> qv_action = name action, qv_q_value = q_value q_entry,
                      qv_update_count = update_count q_entry \<rparr>
            | Inl DoesNotExist \<Rightarrow>
                Inr \<lparr> qv_action = name action, qv_q_value = 0, qv_update_count = 0 \<rparr>
            | Inl e \<Rightarrow> Inl e) of
        Inl e \<Rightarrow> Inl e
      | Inr row \<Rightarrow>
     (case q_values_of qt state rest of Inl e \<Rightarrow> Inl e | Inr rows \<Rightarrow> Inr (row # rows)))"




text \<open>
  Modelled from the spec: the write operation of the Q-table store is not under the source
  tree. Section 4.3: \<open>upsert(state, action, new_value)\<close> writes the value and increments
  \<open>update_count\<close> for that key; section 3: an entry is created on first write, with the
  count starting from 0.
\<close>

definition upsert :: "qtable \<Rightarrow> qstate \<Rightarrow> qaction \<Rightarrow> real \<Rightarrow> qtable" where
  "upsert qt s a v =
     (if \<exists>e \<in> set qt. entry_state e = s \<and> entry_action e = a
      then map (\<lambda>e. if entry_state e = s \<and> entry_action e = a
                     then e\<lparr> q_value := v, update_count := update_count e + 1 \<rparr> else e) qt
      else qt @ [\<lparr> entry_state = s, entry_action = a, q_value = v, update_count = 1 \<rparr>])"

section \<open>QTableView.get\<close>

record q_table_row =
  qt_state :: string
  qt_action :: string
  qt_q_value :: real
  qt_update_count :: nat

text \<open>
  \<open>order_by('-q_value')\<close>: descending by value. The order of rows with equal values is the
  store's choice; here they keep their stored order.
\<close>

definition order_by_desc :: "('a \<Rightarrow> real) \<Rightarrow> 'a list \<Rightarrow> 'a list" where
  "order_by_desc key rows = sort_key (\<lambda>e. - key e) rows"

datatype q_table_body =
    QtError string
  | QtOk (q_table_entries: "q_table_row list") (qt_count: nat) (total_entries: nat)

text \<open>
  The database backend is not fixed by the module, and two tests of the query depend on
  it. \<open>name_contains be nm s\<close> is the test \<open>name__contains=s\<close> on a stored name \<open>nm\<close>:
  a case-sensitive substring test on most backends, case-insensitive on SQLite.
  \<open>gte_nonfinite be x\<close> is the test \<open>q_value__gte=x\<close> on a stored value for a bound \<open>x\<close>
  that is NaN or infinite, which a backend may answer in its own way or refuse. Stored
  values are finite numbers.
\<close>

record backend =
  name_contains :: "string \<Rightarrow> string \<Rightarrow> bool"
  gte_nonfinite :: "pyfloat \<Rightarrow> exn + (real \<Rightarrow> bool)"

text \<open>
  Lines 342 to 352, the filters. A string parameter is truthy when it is not empty.
\<close>

definition q_table_filtered ::
  "builtins \<Rightarrow> backend \<Rightarrow> (string \<rightharpoonup> string) \<Rightarrow> qtable \<Rightarrow> exn + qtable" where
  "q_table_filtered py be query_params qt =
     (let state_name = query_params ''state'';
          action_name = query_params ''action'';
          min_q_value = query_params ''min_q_value'';
          q1 = (case state_name of None \<Rightarrow> qt | Some s \<Rightarrow>
                  if s = [] then qt
                  else filter (\<lambda>e. name_contains be (name (entry_state e)) s) qt);
          q2 = (case action_name of None \<Rightarrow> q1 | Some a \<Rightarrow>
                  if a = [] then q1
                  else filter (\<lambda>e. name_contains be (name (entry_action e)) a) q1)
      in case min_q_value of None \<Rightarrow> Inr q2 | Some m \<Rightarrow>
           if m = [] then Inr q2
           else (case float_of_str py m of
                   None \<Rightarrow> Inl ValueError
                 | Some (Fin r) \<Rightarrow> Inr (filter (\<lambda>e. r \<le> q_value e) q2)
                 | Some x \<Rightarrow> (case gte_nonfinite be x of
                                Inl e \<Rightarrow> Inl e
                              | Inr t \<Rightarrow> Inr (filter (\<lambda>e. t (q_value e)) q2))))"

text \<open>Lines 336 to 374.\<close>

definition q_table_try ::
  "builtins \<Rightarrow> backend \<Rightarrow> (string \<rightharpoonup> string) \<Rightarrow> qtable \<Rightarrow> exn + q_table_body response" where
  "q_table_try py be query_params qt =
     (case (case query_params ''limit'' of
              None \<Rightarrow> Inr 100
            | Some l \<Rightarrow> (case int_of_str py l of None \<Rightarrow> Inl ValueError | Some i \<Rightarrow> Inr i)) of
        Inl e \<Rightarrow> Inl e
      | Inr limit \<Rightarrow>
     (case q_table_filtered py be query_params qt of
        Inl e \<Rightarrow> Inl e
      | Inr q3 \<Rightarrow>
          if limit < 0 then Inl NegativeIndexing
          else (let entries = take (nat limit) (order_by_desc q_value q3);
                    q_table = map (\<lambda>entry. \<lparr> qt_state = name (entry_state entry),
                                             qt_action = name (entry_action entry),
                                             qt_q_value = q_value entry,
                                             qt_update_count = update_count entry \<rparr>) entries
                in Inr (Response (QtOk q_table (length q_table) (length qt)) 200))))"

definition QTableView_get ::
  "builtins \<Rightarrow> backend \<Rightarrow> (string \<rightharpoonup> string) \<Rightarrow> qtable \<Rightarrow> q_table_body response" where
  "QTableView_get py be query_params qt =
     (case q_table_try py be query_params qt of
        Inr r \<Rightarrow> r
      | Inl e \<Rightarrow> Response (QtError (''Failed to retrieve Q-table: '' @ str_exn py e)) 500)"

section \<open>Sample inputs\<close>

text \<open>
  One concrete set of builtins and collaborators, used to evaluate the views: three
  suppliers (the second and third without a city), one state, three candidate actions of
  which the first is no rank tier, an agent that gives suppliers 1 and 2 the same score
  and returns no ranking for any other supplier, a batch whose iteration 1 fails, a
  parser that reads the text \<open>nan\<close> as NaN, and a backend with the case-sensitive
  substring test.
\<close>

definition sample_builtins :: builtins where
  "sample_builtins =
     \<lparr> str_of = (\<lambda>v. case v of PInt i \<Rightarrow> (if i = 99 then ''99'' else ''1'') | PStr s \<Rightarrow> s | _ \<Rightarrow> ''x''),
       str_exn = (\<lambda>e. ''error''),
       float_of_str = (\<lambda>s. if s = ''0.5'' then Some (Fin 0.5)
                           else if s = ''nan'' then Some NaN else None),
       int_of_str = (\<lambda>s. if s = ''2'' then Some 2 else None),
       lower = (\<lambda>s. if s = ''PARIS'' \<or> s = ''Paris'' then ''paris'' else s) \<rparr>"

definition high_state :: qstate where
  "high_state = \<lparr> pk = 1, name = ''Q_HIGH'' \<rparr>"

definition tier_1 :: qaction where
  "tier_1 = \<lparr> pk = 2, name = ''RANK_TIER_1'' \<rparr>"

definition tier_2 :: qaction where
  "tier_2 = \<lparr> pk = 3, name = ''RANK_TIER_2'' \<rparr>"

definition no_op :: qaction where
  "no_op = \<lparr> pk = 1, name = ''NO_OP'' \<rparr>"

definition sample_services :: services where
  "sample_services =
     \<lparr> get_supplier = (\<lambda>sid.
         if sid = PInt 1 then Inr (PDict [(''company_name'', PStr ''Acme''), (''city'', PStr ''Paris'')])
         else if sid = PInt 2 then Inr (PDict [(''name'', PStr ''Bolt'')])
         else if sid = PInt 3 then Inr (PDict [(''name'', PStr ''Cog'')])
         else Inr PNone),
       get_state_from_metrics = (\<lambda>m. Inr high_state),
       get_actions = (\<lambda>s. Inr [no_op, tier_1, tier_2]),
       get_reward = (\<lambda>sid s a. Inr 8),
       next_state = (\<lambda>sid a. Inr high_state),
       learn = (\<lambda>s a r n qt. (Inr (r / 10), upsert qt s a (r / 10))),
       calculate_combined_metrics = (\<lambda>sid.
         Inr \<lparr> quality_score = Fin 9, delivery_score = Fin 8, price_score = Fin 7,
               service_score = Fin 10, overall_score = Fin 8.5 \<rparr>),
       get_suppliers_by_product = (\<lambda>p. if p = ''p3'' then Inr [PInt 3] else Inr [PInt 2, PInt 1]),
       rank_exploit = (\<lambda>sid upd qt.
         if sid = PInt 1 then
           Inr (Some tier_1, 1, Some \<lparr> ranking_supplier_id = 1, ranking_supplier_name = ''Acme'',
                  ranking_overall_score = 5, ranking_state = high_state \<rparr>)
         else if sid = PInt 2 then
           Inr (Some tier_1, 1, Some \<lparr> ranking_supplier_id = 2, ranking_supplier_name = ''Bolt'',
                  ranking_overall_score = 5, ranking_state = high_state \<rparr>)
         else Inr (None, 0, None)),
       rank_explore = (\<lambda>rng sid upd qt.
         Inr (Some (if even rng then tier_1 else tier_2), 1,
              Some \<lparr> ranking_supplier_id = 1, ranking_supplier_name = ''Acme'',
                     ranking_overall_score = of_nat rng, ranking_state = high_state \<rparr>)),
       train_iteration = (\<lambda>i ids qt.
         if i = 1 then Inl (ServiceError ''no metrics'')
         else Inr (upsert qt high_state tier_1 (of_nat i))) \<rparr>"

definition sample_feedback :: "string \<rightharpoonup> pyval" where
  "sample_feedback =
     [''supplier_id'' \<mapsto> PInt 1, ''product_id'' \<mapsto> PInt 5, ''quality_rating'' \<mapsto> PFloat (Fin 0.9),
      ''delivery_time_days'' \<mapsto> PInt 2, ''issues'' \<mapsto> PInt 0]"

definition low_state :: qstate where
  "low_state = \<lparr> pk = 2, name = ''Q_LOW'' \<rparr>"

definition sample_table :: qtable where
  "sample_table =
     [\<lparr>entry_state = high_state, entry_action = tier_1, q_value = 0, update_count = 1\<rparr>,
      \<lparr>entry_state = high_state, entry_action = tier_2, q_value = 3, update_count = 1\<rparr>,
      \<lparr>entry_state = high_state, entry_action = no_op, q_value = 9, update_count = 1\<rparr>,
      \<lparr>entry_state = low_state, entry_action = tier_1, q_value = 1, update_count = 2\<rparr>,
      \<lparr>entry_state = low_state, entry_action = tier_2, q_value = 5, update_count = 4\<rparr>]"

definition sample_backend :: backend where
  "sample_backend =
     \<lparr> name_contains = (\<lambda>nm s. sublist s nm),
       gte_nonfinite = (\<lambda>x. Inr (\<lambda>q. x = NInf)) \<rparr>"

lemmas sample_defs = sample_builtins_def sample_services_def sample_feedback_def
  high_state_def tier_1_def tier_2_def no_op_def low_state_def

section \<open>Feedback metrics\<close>

lemma feedback_metrics_source:
  assumes "FeedbackView_post py sv data qt = (Inr (Response (FbOk msg q st ac sid cn pid c m) code), qt')"
  shows "create_metrics py (data_get data ''quality_rating'' PNone)
           (data_get data ''delivery_time_days'' PNone) (data_get data ''issues'' (PInt 0)) = Inr m"
  using assms
  by (auto simp: FeedbackView_post_def Let_def required_fields_error_def supplier_not_found_def
        no_suitable_action_def split: if_splits sum.splits option.splits prod.splits)

text \<open>
  The clamp of lines 60 to 63 works on every float but NaN, which passes through both
  \<open>max\<close> and \<open>min\<close>.
\<close>

lemma clamp_finite:
  "py_min (py_max (Fin a) (Fin 1)) (Fin 10) = Fin (min (max a 1) 10)"
  by (simp add: py_min_def py_max_def)

lemma clamp_not_nan:
  assumes "x \<noteq> NaN"
  shows "\<exists>v. py_min (py_max x (Fin 1)) (Fin 10) = Fin v \<and> 1 \<le> v \<and> v \<le> 10"
  using assms by (cases x) (auto simp: py_min_def py_max_def)

lemma clamp_nan: "py_min (py_max NaN (Fin 1)) (Fin 10) = NaN"
  by (simp add: py_min_def py_max_def)

lemma fmul_pos_not_nan: "x \<noteq> NaN \<Longrightarrow> 0 < c \<Longrightarrow> fmul x (Fin c) \<noteq> NaN"
  by (cases x) auto

lemma fsub_fin_not_nan: "y \<noteq> NaN \<Longrightarrow> fsub (Fin c) y \<noteq> NaN"
  by (cases y) (auto simp: fsub_def)

lemma py_min_not_nan: "x \<noteq> NaN \<Longrightarrow> py_min x (Fin c) \<noteq> NaN"
  by (cases x) (auto simp: py_min_def)

lemma overall_finite:
  "fadd (fadd (fadd (fmul (Fin a) (Fin 0.25)) (fmul (Fin b) (Fin 0.25)))
                    (fmul (Fin c) (Fin 0.25)))
        (fmul (Fin d) (Fin 0.25)) = Fin ((a + b + c + d) / 4)"
  by simp

text \<open>
  For fields that convert to finite numbers each score is the clamped value computed from
  its field, and the overall score is the mean of the four.
\<close>

lemma create_metrics_finite:
  assumes "py_float py qr = Inr (Fin q)"
      and "py_float py (py_or dt (PInt 1)) = Inr (Fin d)"
      and "py_float py iss = Inr (Fin i)"
  shows "create_metrics py qr dt iss =
           Inr \<lparr> quality_score = Fin (min (max (q * 10) 1) 10),
                 delivery_score = Fin (min (max (10 - min d 10) 1) 10),
                 price_score = Fin 7,
                 service_score = Fin (min (max (10 - i * 2) 1) 10),
                 overall_score = Fin ((min (max (q * 10) 1) 10 + min (max (10 - min d 10) 1) 10
                                       + 7 + min (max (10 - i * 2) 1) 10) / 4) \<rparr>"
proof -
  have d: "py_min (Fin d) (Fin 10) = Fin (min d 10)"
    by (simp add: py_min_def)
  show ?thesis
    unfolding create_metrics_def Let_def
    by (simp only: assms sum.case fmul.simps d fsub_def fneg.simps fadd.simps clamp_finite
        overall_finite metrics.simps) simp
qed

text \<open>As long as no field converts to NaN, every score is a number from 1 to 10.\<close>

lemma create_metrics_not_nan:
  assumes "py_float py qr = Inr q" and "q \<noteq> NaN"
      and "py_float py (py_or dt (PInt 1)) = Inr d" and "d \<noteq> NaN"
      and "py_float py iss = Inr i" and "i \<noteq> NaN"
  shows "\<exists>qs ds ss. create_metrics py qr dt iss =
           Inr \<lparr> quality_score = Fin qs, delivery_score = Fin ds, price_score = Fin 7,
                 service_score = Fin ss, overall_score = Fin ((qs + ds + 7 + ss) / 4) \<rparr> \<and>
           1 \<le> qs \<and> qs \<le> 10 \<and> 1 \<le> ds \<and> ds \<le> 10 \<and> 1 \<le> ss \<and> ss \<le> 10"
proof -
  from clamp_not_nan [OF fmul_pos_not_nan [OF assms(2), of 10]] obtain qs where
    qs: "py_min (py_max (fmul q (Fin 10)) (Fin 1)) (Fin 10) = Fin qs" "1 \<le> qs" "qs \<le> 10"
    by auto
  from clamp_not_nan [OF fsub_fin_not_nan [OF py_min_not_nan [OF assms(4), of 10], of 10]]
  obtain ds where
    ds: "py_min (py_max (fsub (Fin 10) (py_min d (Fin 10))) (Fin 1)) (Fin 10) = Fin ds"
      "1 \<le> ds" "ds \<le> 10"
    by auto
  from clamp_not_nan [OF fsub_fin_not_nan [OF fmul_pos_not_nan [OF assms(6), of 2], of 10]]
  obtain ss where
    ss: "py_min (py_max (fsub (Fin 10) (fmul i (Fin 2))) (Fin 1)) (Fin 10) = Fin ss"
      "1 \<le> ss" "ss \<le> 10"
    by auto
  have "create_metrics py qr dt iss =
           Inr \<lparr> quality_score = Fin qs, delivery_score = Fin ds, price_score = Fin 7,
                 service_score = Fin ss, overall_score = Fin ((qs + ds + 7 + ss) / 4) \<rparr>"
    unfolding create_metrics_def Let_def
    by (simp only: assms(1,3,5) sum.case qs(1) ds(1) ss(1) overall_finite)
  with qs(2,3) ds(2,3) ss(2,3) show ?thesis by blast
qed

text \<open>The scenario of the specification: 0.9, 2 days, no issues.\<close>

lemma create_metrics_scenario:
  "create_metrics py (PFloat (Fin 0.9)) (PInt 2) (PInt 0) =
     Inr \<lparr> quality_score = Fin 9, delivery_score = Fin 8, price_score = Fin 7,
           service_score = Fin 10, overall_score = Fin 8.5 \<rparr>"
  using create_metrics_finite [of py "PFloat (Fin 0.9)" "0.9" "PInt 2" 2 "PInt 0" 0]
  by (simp add: py_or_def)

text \<open>A rating that converts to NaN gives a NaN quality score and a NaN overall score.\<close>

lemma create_metrics_nan_rating:
  assumes "py_float py qr = Inr NaN"
      and "py_float py (py_or dt (PInt 1)) = Inr d"
      and "py_float py iss = Inr i"
      and "create_metrics py qr dt iss = Inr m"
  shows "quality_score m = NaN \<and> overall_score m = NaN"
  using assms
  by (auto simp: create_metrics_def Let_def clamp_nan)

text \<open>
  Claim C1. The scores are meant to be clamped to the interval from 1 to 10, but the clamp
  misses NaN. A feedback request whose \<open>quality_rating\<close> is the string \<open>nan\<close> has its
  required fields truthy; \<open>float\<close> reads the string as NaN; and the metrics derived for it
  carry NaN as quality score and as overall score, which the view returns in its answer.
\<close>

theorem feedback_metrics_nan:
  "py_all [PInt 1, PInt 5, PStr ''nan''] \<and>
   create_metrics sample_builtins (PStr ''nan'') (PInt 2) (PInt 0) =
     Inr \<lparr> quality_score = NaN, delivery_score = Fin 8, price_score = Fin 7,
           service_score = Fin 10, overall_score = NaN \<rparr> \<and>
   fst (FeedbackView_post sample_builtins sample_services
          (sample_feedback(''quality_rating'' \<mapsto> PStr ''nan'')) []) =
     Inr (Response
        (FbOk ''Feedback received and Q-table updated'' (4 / 5) ''Q_HIGH''
          ''RANK_TIER_1'' (PInt 1) (PStr ''Acme'') (PInt 5) PNone
          \<lparr> quality_score = NaN, delivery_score = Fin 8, price_score = Fin 7,
            service_score = Fin 10, overall_score = NaN \<rparr>) 200)"
  by (simp add: sample_defs FeedbackView_post_def data_get_def py_all_def create_metrics_def
      py_or_def choose_action_def company_name_of_def upsert_def Let_def py_min_def py_max_def
      fsub_def)

section \<open>Required fields\<close>

text \<open>
  Claim C9. A feedback request in which \<open>supplier_id\<close>, \<open>product_id\<close> or
  \<open>quality_rating\<close> is present with a falsy value is rejected with the
  missing-required-fields error, with the same result as the request that omits the field;
  the Q-table is not touched.
\<close>

theorem falsy_required_field_rejected:
  assumes "k = ''supplier_id'' \<or> k = ''product_id'' \<or> k = ''quality_rating''"
      and "\<not> truthy v"
  shows "FeedbackView_post py sv (data(k \<mapsto> v)) qt = (Inr required_fields_error, qt) \<and>
         FeedbackView_post py sv (data(k \<mapsto> v)) qt = FeedbackView_post py sv (data(k := None)) qt"
  using assms
  by (auto simp: FeedbackView_post_def Let_def data_get_def py_all_def)

text \<open>A quality rating of 0, the worst rating, is rejected as missing.\<close>

theorem falsy_required_field_rejected_witness:
  "\<not> truthy (PInt 0) \<and>
   FeedbackView_post sample_builtins sample_services (sample_feedback(''quality_rating'' \<mapsto> PInt 0)) [] =
     (Inr required_fields_error, [])"
  using falsy_required_field_rejected [of "''quality_rating''" "PInt 0" sample_builtins
      sample_services sample_feedback "[]"]
  by simp

section \<open>Unknown supplier\<close>

text \<open>
  Claim C4 as stated fails: the required fields are checked before the supplier is looked
  up. A request for a supplier that the directory does not know, sent without
  \<open>product_id\<close>, is answered with the missing-required-fields error and not with the
  supplier-not-found error.
\<close>

theorem unresolved_supplier_counterexample:
  "get_supplier sample_services (PInt 99) = Inr PNone \<and>
   fst (FeedbackView_post sample_builtins sample_services
          [''supplier_id'' \<mapsto> PInt 99, ''quality_rating'' \<mapsto> PFloat (Fin 0.9)] []) =
     Inr required_fields_error \<and>
   required_fields_error \<noteq> supplier_not_found sample_builtins (PInt 99)"
  by (simp add: sample_defs FeedbackView_post_def data_get_def py_all_def Let_def
      required_fields_error_def supplier_not_found_def)

text \<open>
  Claim C4, amended. When the directory returns nothing for the request's
  \<open>supplier_id\<close>, the request is answered with the supplier-not-found error (status 404)
  if its three required fields are truthy, and with the missing-required-fields error
  otherwise. In both cases the Q-table is unchanged and the answer does not depend on the
  agent's \<open>learn\<close>: no learning step runs.
\<close>

theorem unresolved_supplier_rejected:
  assumes "get_supplier sv (data_get data ''supplier_id'' PNone) = Inr supplier"
      and "\<not> truthy supplier"
  shows "FeedbackView_post py (sv\<lparr>learn := l\<rparr>) data qt =
           (if py_all [data_get data ''supplier_id'' PNone, data_get data ''product_id'' PNone,
                       data_get data ''quality_rating'' PNone]
            then (Inr (supplier_not_found py (data_get data ''supplier_id'' PNone)), qt)
            else (Inr required_fields_error, qt))"
  using assms
  by (simp add: FeedbackView_post_def Let_def)

text \<open>Supplier 99 is unknown to the sample directory.\<close>

theorem unresolved_supplier_rejected_witness:
  "FeedbackView_post sample_builtins
     (sample_services\<lparr>learn := (\<lambda>s a r n qt. (Inr 0, []))\<rparr>)
     (sample_feedback(''supplier_id'' \<mapsto> PInt 99)) [] =
   (Inr (supplier_not_found sample_builtins (PInt 99)), [])"
  using unresolved_supplier_rejected [of sample_services "sample_feedback(''supplier_id'' \<mapsto> PInt 99)"
      PNone sample_builtins "\<lambda>s a r n qt. (Inr 0, [])" "[]"]
  by (simp add: sample_defs data_get_def py_all_def)

section \<open>Choice of the learning action\<close>

lemma choose_action_first:
  "choose_action actions = Some a \<longleftrightarrow>
     (\<exists>pre post. actions = pre @ a # post \<and> prefix ''RANK_TIER_'' (name a) \<and>
        (\<forall>b \<in> set pre. \<not> prefix ''RANK_TIER_'' (name b)))"
  unfolding choose_action_def
proof (induction actions)
  case Nil
  then show ?case by simp
next
  case (Cons x xs)
  show ?case
  proof (cases "prefix ''RANK_TIER_'' (name x)")
    case True
    have "(\<exists>pre post. x # xs = pre @ a # post \<and> prefix ''RANK_TIER_'' (name a) \<and>
        (\<forall>b \<in> set pre. \<not> prefix ''RANK_TIER_'' (name b))) \<longleftrightarrow> x = a"
    proof
      assume "\<exists>pre post. x # xs = pre @ a # post \<and> prefix ''RANK_TIER_'' (name a) \<and>
        (\<forall>b \<in> set pre. \<not> prefix ''RANK_TIER_'' (name b))"
      then obtain pre post where p: "x # xs = pre @ a # post"
        "\<forall>b \<in> set pre. \<not> prefix ''RANK_TIER_'' (name b)" by blast
      show "x = a"
      proof (cases pre)
        case Nil
        with p show ?thesis by simp
      next
        case (Cons y ys)
        with p True show ?thesis by auto
      qed
    next
      assume "x = a"
      with True have "x # xs = [] @ a # xs \<and> prefix ''RANK_TIER_'' (name a) \<and>
        (\<forall>b \<in> set []. \<not> prefix ''RANK_TIER_'' (name b))" by simp
      then show "\<exists>pre post. x # xs = pre @ a # post \<and> prefix ''RANK_TIER_'' (name a) \<and>
        (\<forall>b \<in> set pre. \<not> prefix ''RANK_TIER_'' (name b))" by blast
    qed
    with True show ?thesis by simp
  next
    case False
    have "(\<exists>pre post. x # xs = pre @ a # post \<and> prefix ''RANK_TIER_'' (name a) \<and>
        (\<forall>b \<in> set pre. \<not> prefix ''RANK_TIER_'' (name b))) \<longleftrightarrow>
          (\<exists>pre post. xs = pre @ a # post \<and> prefix ''RANK_TIER_'' (name a) \<and>
        (\<forall>b \<in> set pre. \<not> prefix ''RANK_TIER_'' (name b)))" (is "?L \<longleftrightarrow> ?R")
    proof
      assume ?L
      then obtain pre post where p: "x # xs = pre @ a # post" "prefix ''RANK_TIER_'' (name a)"
        "\<forall>b \<in> set pre. \<not> prefix ''RANK_TIER_'' (name b)" by blast
      show ?R
      proof (cases pre)
        case Nil
        with p False show ?thesis by simp
      next
        case (Cons y ys)
        with p have "xs = ys @ a # post \<and> prefix ''RANK_TIER_'' (name a) \<and>
          (\<forall>b \<in> set ys. \<not> prefix ''RANK_TIER_'' (name b))" by simp
        then show ?thesis by blast
      qed
    next
      assume ?R
      then obtain pre post where p: "xs = pre @ a # post" "prefix ''RANK_TIER_'' (name a)"
        "\<forall>b \<in> set pre. \<not> prefix ''RANK_TIER_'' (name b)" by blast
      with False have "x # xs = (x # pre) @ a # post \<and> prefix ''RANK_TIER_'' (name a) \<and>
          (\<forall>b \<in> set (x # pre). \<not> prefix ''RANK_TIER_'' (name b))" by simp
      then show ?L by blast
    qed
    with False Cons.IH show ?thesis by simp
  qed
qed

lemma choose_action_none:
  "choose_action actions = None \<longleftrightarrow> (\<forall>a \<in> set actions. \<not> prefix ''RANK_TIER_'' (name a))"
  by (auto simp: choose_action_def find_None_iff)

text \<open>
  Claim C5. For a feedback request that reaches the choice of the action (its fields are
  present, the supplier resolves, the metrics, the state and the candidate actions are
  computed): if no candidate's name starts with \<open>RANK_TIER_\<close> the request is answered
  with the no-suitable-action error and the Q-table is unchanged; otherwise the action
  chosen is the first candidate with such a name, the Q-table after the request is the one
  \<open>learn\<close> returns for that action, and a response names that action.
\<close>

theorem feedback_action_choice:
  assumes "py_all [data_get data ''supplier_id'' PNone, data_get data ''product_id'' PNone,
                   data_get data ''quality_rating'' PNone]"
      and "get_supplier sv (data_get data ''supplier_id'' PNone) = Inr supplier"
      and "truthy supplier"
      and "create_metrics py (data_get data ''quality_rating'' PNone)
             (data_get data ''delivery_time_days'' PNone) (data_get data ''issues'' (PInt 0)) = Inr m"
      and "get_state_from_metrics sv m = Inr state"
      and "get_actions sv state = Inr actions"
  shows "((\<forall>a \<in> set actions. \<not> prefix ''RANK_TIER_'' (name a)) \<longrightarrow>
            FeedbackView_post py sv data qt = (Inr no_suitable_action, qt)) \<and>
         (\<forall>pre a post reward nxt.
            actions = pre @ a # post \<and> prefix ''RANK_TIER_'' (name a) \<and>
            (\<forall>b \<in> set pre. \<not> prefix ''RANK_TIER_'' (name b)) \<and>
            get_reward sv (data_get data ''supplier_id'' PNone) state a = Inr reward \<and>
            next_state sv (data_get data ''supplier_id'' PNone) a = Inr nxt \<longrightarrow>
            choose_action actions = Some a \<and>
            snd (FeedbackView_post py sv data qt) = snd (learn sv state a reward nxt qt) \<and>
            (\<forall>r. fst (FeedbackView_post py sv data qt) = Inr r \<longrightarrow> fb_action (body r) = name a))"
proof (intro conjI impI allI)
  assume "\<forall>a \<in> set actions. \<not> prefix ''RANK_TIER_'' (name a)"
  then have "choose_action actions = None" by (simp add: choose_action_none)
  with assms show "FeedbackView_post py sv data qt = (Inr no_suitable_action, qt)"
    by (simp add: FeedbackView_post_def Let_def)
next
  fix pre a post reward nxt
  assume h: "actions = pre @ a # post \<and> prefix ''RANK_TIER_'' (name a) \<and>
            (\<forall>b \<in> set pre. \<not> prefix ''RANK_TIER_'' (name b)) \<and>
            get_reward sv (data_get data ''supplier_id'' PNone) state a = Inr reward \<and>
            next_state sv (data_get data ''supplier_id'' PNone) a = Inr nxt"
  then have c: "choose_action actions = Some a"
    unfolding choose_action_first by blast
  then show "choose_action actions = Some a" .
  from c h assms show "snd (FeedbackView_post py sv data qt) = snd (learn sv state a reward nxt qt)"
    by (simp add: FeedbackView_post_def Let_def split: prod.splits sum.splits)
  fix r
  assume "fst (FeedbackView_post py sv data qt) = Inr r"
  with c h assms show "fb_action (body r) = name a"
    by (auto simp: FeedbackView_post_def Let_def split: prod.splits sum.splits)
qed

text \<open>
  With the sample candidates the first rank tier is chosen although another action
  precedes it; with no rank tier among the candidates the request fails.
\<close>

theorem feedback_action_choice_witness:
  "FeedbackView_post sample_builtins
      (sample_services\<lparr>get_actions := (\<lambda>s. Inr [no_op])\<rparr>) sample_feedback [] =
     (Inr no_suitable_action, []) \<and>
   choose_action [no_op, tier_1, tier_2] = Some tier_1 \<and>
   snd (FeedbackView_post sample_builtins sample_services sample_feedback []) =
     [\<lparr>entry_state = high_state, entry_action = tier_1, q_value = 4 / 5, update_count = 1\<rparr>]"
proof -
  let ?m = "\<lparr>quality_score = Fin 9, delivery_score = Fin 8, price_score = Fin 7,
             service_score = Fin 10, overall_score = Fin (17 / 2)\<rparr>"
  let ?s = "PDict [(''company_name'', PStr ''Acme''), (''city'', PStr ''Paris'')]"
  have pre: "py_all [data_get sample_feedback ''supplier_id'' PNone,
                     data_get sample_feedback ''product_id'' PNone,
                     data_get sample_feedback ''quality_rating'' PNone]"
    "truthy ?s"
    "create_metrics sample_builtins (data_get sample_feedback ''quality_rating'' PNone)
       (data_get sample_feedback ''delivery_time_days'' PNone)
       (data_get sample_feedback ''issues'' (PInt 0)) = Inr ?m"
    by (simp_all add: sample_defs data_get_def py_all_def create_metrics_def py_or_def Let_def
        py_min_def py_max_def fsub_def)
  have a: "FeedbackView_post sample_builtins
      (sample_services\<lparr>get_actions := (\<lambda>s. Inr [no_op])\<rparr>) sample_feedback [] =
     (Inr no_suitable_action, [])"
    using feedback_action_choice [of sample_feedback "sample_services\<lparr>get_actions := (\<lambda>s. Inr [no_op])\<rparr>"
        ?s sample_builtins ?m high_state "[no_op]" "[]"] pre
    by (simp add: sample_defs data_get_def)
  have b: "choose_action [no_op, tier_1, tier_2] = Some tier_1 \<and>
      snd (FeedbackView_post sample_builtins sample_services sample_feedback []) =
      snd (learn sample_services high_state tier_1 8 high_state [])"
    using feedback_action_choice [of sample_feedback sample_services
        ?s sample_builtins ?m high_state "[no_op, tier_1, tier_2]" "[]", THEN conjunct2,
        rule_format, of "[no_op]" tier_1 "[tier_2]" 8 high_state] pre
    by (simp add: sample_defs data_get_def)
  from a b show ?thesis
    by (simp add: sample_defs upsert_def)
qed

section \<open>Order of the ranked suppliers\<close>

lemma py_sort_reverse_sorted:
  "sorted_wrt (\<lambda>x y. key y \<le> key x) (py_sort_reverse key xs)"
proof -
  have "sorted (map key (sort_key key (rev xs)))" by (rule sorted_sort_key)
  then have "sorted_wrt (\<lambda>x y. key x \<le> key y) (sort_key key (rev xs))"
    by (simp add: sorted_map)
  then show ?thesis
    by (simp add: py_sort_reverse_def sorted_wrt_rev)
qed

lemma py_sort_reverse_stable:
  "filter (\<lambda>x. key x = k) (py_sort_reverse key xs) = filter (\<lambda>x. key x = k) xs"
proof -
  have "filter (\<lambda>x. key x = k) (py_sort_reverse key xs) =
          rev (filter (\<lambda>x. key x = k) (sort_key key (rev xs)))"
    by (simp add: py_sort_reverse_def rev_filter)
  also have "\<dots> = rev (filter (\<lambda>x. key x = k) (rev xs))"
    by (simp only: sort_key_stable)
  also have "\<dots> = filter (\<lambda>x. key x = k) xs"
    by (simp add: rev_filter)
  finally show ?thesis .
qed


lemma ranking_ok_source:
  assumes "SupplierRankingView_get py sv rng qp qt = Response (RkOk p c rs n) st"
  shows "qp ''product_id'' = Some p \<and> c = qp ''city'' \<and>
         (\<exists>suppliers ranked. get_suppliers_by_product sv p = Inr suppliers \<and>
            rank_all py sv rng c qt suppliers = Inr ranked \<and>
            rs = py_sort_reverse r_score ranked \<and> n = length rs)"
  using assms
  by (auto simp: SupplierRankingView_get_def ranking_try_def Let_def
      split: option.splits if_splits sum.splits)

text \<open>
  Claim C2 as stated fails: the sort has no second key. Suppliers 2 and 1, listed in this
  order and ranked with equal scores, are returned in this order, not by ascending
  \<open>supplier_id\<close>.
\<close>

theorem ranking_tie_break_counterexample:
  "rk_suppliers (body (SupplierRankingView_get sample_builtins sample_services 0
       [''product_id'' \<mapsto> ''p1''] [])) =
     [\<lparr>r_supplier_id = 2, r_company_name = ''Bolt'', r_score = 5, r_state = ''Q_HIGH'',
        r_best_action = ''RANK_TIER_1'', r_q_value = 0, r_city = PNone\<rparr>,
      \<lparr>r_supplier_id = 1, r_company_name = ''Acme'', r_score = 5, r_state = ''Q_HIGH'',
        r_best_action = ''RANK_TIER_1'', r_q_value = 0, r_city = PStr ''Paris''\<rparr>] \<and>
   \<not> sorted_wrt (\<lambda>x y. r_score y < r_score x \<or>
                          (r_score x = r_score y \<and> r_supplier_id x \<le> r_supplier_id y))
       (rk_suppliers (body (SupplierRankingView_get sample_builtins sample_services 0
          [''product_id'' \<mapsto> ''p1''] [])))"
  by (simp add: sample_defs SupplierRankingView_get_def ranking_try_def rank_one_def
      rank_supplier_def supplier_city_of_def city_differs_def q_value_or_default_def
      objects_get_def py_sort_reverse_def Let_def)

text \<open>
  Claim C2, amended. The returned supplier list is sorted by score descending, and
  suppliers with equal scores keep the order in which the loop over the candidate listing
  produced them.
\<close>

theorem ranking_sorted_stable:
  assumes "SupplierRankingView_get py sv rng qp qt = Response (RkOk p c rs n) st"
  shows "sorted_wrt (\<lambda>x y. r_score y \<le> r_score x) rs \<and>
         (\<exists>suppliers ranked. get_suppliers_by_product sv p = Inr suppliers \<and>
            rank_all py sv rng c qt suppliers = Inr ranked \<and>
            (\<forall>k. filter (\<lambda>x. r_score x = k) rs = filter (\<lambda>x. r_score x = k) ranked))"
proof -
  from ranking_ok_source [OF assms] obtain suppliers ranked where
    s: "get_suppliers_by_product sv p = Inr suppliers"
       "rank_all py sv rng c qt suppliers = Inr ranked"
       "rs = py_sort_reverse r_score ranked"
    by blast
  have "sorted_wrt (\<lambda>x y. r_score y \<le> r_score x) rs"
    unfolding s(3) by (rule py_sort_reverse_sorted)
  moreover have "\<forall>k. filter (\<lambda>x. r_score x = k) rs = filter (\<lambda>x. r_score x = k) ranked"
    unfolding s(3) by (simp add: py_sort_reverse_stable)
  ultimately show ?thesis using s(1,2) by blast
qed

lemma sample_ranking:
  "SupplierRankingView_get sample_builtins sample_services 0 [''product_id'' \<mapsto> ''p1''] [] =
   Response (RkOk ''p1'' None
     [\<lparr>r_supplier_id = 2, r_company_name = ''Bolt'', r_score = 5, r_state = ''Q_HIGH'',
        r_best_action = ''RANK_TIER_1'', r_q_value = 0, r_city = PNone\<rparr>,
      \<lparr>r_supplier_id = 1, r_company_name = ''Acme'', r_score = 5, r_state = ''Q_HIGH'',
        r_best_action = ''RANK_TIER_1'', r_q_value = 0, r_city = PStr ''Paris''\<rparr>] 2) 200"
  by (simp add: sample_defs SupplierRankingView_get_def ranking_try_def rank_one_def
      rank_supplier_def supplier_city_of_def city_differs_def q_value_or_default_def
      objects_get_def py_sort_reverse_def Let_def)

text \<open>The sample query returns a list, to which the theorem applies.\<close>

theorem ranking_sorted_stable_witness:
  "sorted_wrt (\<lambda>x y. r_score y \<le> r_score x)
     [\<lparr>r_supplier_id = 2, r_company_name = ''Bolt'', r_score = 5, r_state = ''Q_HIGH'',
        r_best_action = ''RANK_TIER_1'', r_q_value = 0, r_city = PNone\<rparr>,
      \<lparr>r_supplier_id = 1, r_company_name = ''Acme'', r_score = 5, r_state = ''Q_HIGH'',
        r_best_action = ''RANK_TIER_1'', r_q_value = 0, r_city = PStr ''Paris''\<rparr>] \<and>
   (\<exists>suppliers ranked. get_suppliers_by_product sample_services ''p1'' = Inr suppliers \<and>
      rank_all sample_builtins sample_services 0 None [] suppliers = Inr ranked \<and>
      (\<forall>k. filter (\<lambda>x. r_score x = k)
         [\<lparr>r_supplier_id = 2, r_company_name = ''Bolt'', r_score = 5, r_state = ''Q_HIGH'',
            r_best_action = ''RANK_TIER_1'', r_q_value = 0, r_city = PNone\<rparr>,
          \<lparr>r_supplier_id = 1, r_company_name = ''Acme'', r_score = 5, r_state = ''Q_HIGH'',
            r_best_action = ''RANK_TIER_1'', r_q_value = 0, r_city = PStr ''Paris''\<rparr>] =
         filter (\<lambda>x. r_score x = k) ranked))"
  by (rule ranking_sorted_stable [OF sample_ranking])

section \<open>Reproducible ranking\<close>

lemma rank_one_rng: "rank_one py sv rng1 city qt sid = rank_one py sv rng2 city qt sid"
  unfolding rank_one_def rank_supplier_def if_False ..

lemma rank_all_rng: "rank_all py sv rng1 city qt sids = rank_all py sv rng2 city qt sids"
proof (induction sids)
  case Nil
  show ?case by simp
next
  case (Cons x xs)
  show ?case
    unfolding rank_all.simps Cons.IH rank_one_rng [of py sv rng1 city qt x rng2] ..
qed

lemma rank_one_explore:
  "rank_one py (sv\<lparr>rank_explore := f\<rparr>) rng city qt sid = rank_one py sv rng city qt sid"
proof -
  have a: "get_supplier (sv\<lparr>rank_explore := f\<rparr>) = get_supplier sv"
    and b: "rank_exploit (sv\<lparr>rank_explore := f\<rparr>) = rank_exploit sv"
    by simp_all
  show ?thesis
    unfolding rank_one_def rank_supplier_def if_False a b ..
qed

lemma rank_all_explore:
  "rank_all py (sv\<lparr>rank_explore := f\<rparr>) rng city qt sids = rank_all py sv rng city qt sids"
proof (induction sids)
  case Nil
  show ?case by simp
next
  case (Cons x xs)
  show ?case
    unfolding rank_all.simps Cons.IH rank_one_explore ..
qed

lemma view_explore:
  "SupplierRankingView_get py (sv\<lparr>rank_explore := f\<rparr>) rng1 qp qt =
     SupplierRankingView_get py sv rng1 qp qt"
proof -
  have a: "get_suppliers_by_product (sv\<lparr>rank_explore := f\<rparr>) = get_suppliers_by_product sv"
    by simp
  show ?thesis
    unfolding SupplierRankingView_get_def ranking_try_def rank_all_explore a ..
qed

text \<open>
  Claim C8. A ranking query calls the agent with exploration disabled: its answer is the
  same whatever the state of the random source and whatever the agent would do when
  exploring, so two queries over the same suppliers and the same Q-table return the same
  list with the same scores.
\<close>

theorem ranking_reproducible:
  "SupplierRankingView_get py sv rng1 qp qt = SupplierRankingView_get py sv rng2 qp qt \<and>
   SupplierRankingView_get py (sv\<lparr>rank_explore := f\<rparr>) rng1 qp qt =
     SupplierRankingView_get py sv rng1 qp qt"
proof
  show "SupplierRankingView_get py sv rng1 qp qt = SupplierRankingView_get py sv rng2 qp qt"
    unfolding SupplierRankingView_get_def ranking_try_def
      rank_all_rng [of py sv rng1 _ qt _ rng2] ..
  show "SupplierRankingView_get py (sv\<lparr>rank_explore := f\<rparr>) rng1 qp qt =
     SupplierRankingView_get py sv rng1 qp qt"
    by (rule view_explore)
qed

text \<open>Two sample queries with different random states agree.\<close>

theorem ranking_reproducible_witness:
  "SupplierRankingView_get sample_builtins sample_services 0 [''product_id'' \<mapsto> ''p1''] [] =
   SupplierRankingView_get sample_builtins sample_services 1 [''product_id'' \<mapsto> ''p1''] []"
  by (rule ranking_reproducible [THEN conjunct1])

text \<open>With exploration requested the sample agent does depend on the random state.\<close>

lemma exploration_would_differ:
  "rank_supplier sample_services 0 (PInt 1) True True [] \<noteq>
   rank_supplier sample_services 1 (PInt 1) True True []"
  by (simp add: sample_defs rank_supplier_def)

section \<open>City filter\<close>








section \<open>Batch training\<close>

lemma training_table:
  assumes "py_int py (data_get data ''iterations'' (PInt 100)) = Inr n"
  shows "snd (ManualTrainingView_post py bt data qt) =
           snd (bt n (data_get data ''supplier_ids'' PNone) qt)"
    and "\<exists>r. fst (ManualTrainingView_post py bt data qt) = Inr r"
  using assms
  by (auto simp: ManualTrainingView_post_def transaction_atomic_def training_body_fn_def
      training_try_def Let_def split: prod.splits sum.splits if_splits)

lemma fold_train_skip:
  assumes "k < m"
      and "train_iteration sv k ids (fold (train_one sv ids) [0..<k] qt) = Inl e"
  shows "fold (train_one sv ids) [0..<m] qt =
           fold (train_one sv ids) [Suc k..<m] (fold (train_one sv ids) [0..<k] qt)"
proof -
  from assms(1) have "[0..<m] = [0..<k] @ k # [Suc k..<m]"
    by (metis le_add2 less_imp_add_positive upt_add_eq_append upt_conv_Cons zero_le
          add.commute add_0 less_or_eq_imp_le)
  then have "fold (train_one sv ids) [0..<m] qt =
      fold (train_one sv ids) [Suc k..<m]
        (train_one sv ids k (fold (train_one sv ids) [0..<k] qt))"
    by simp
  also have "train_one sv ids k (fold (train_one sv ids) [0..<k] qt) =
      fold (train_one sv ids) [0..<k] qt"
    by (simp add: train_one_def assms(2))
  finally show ?thesis .
qed

text \<open>
  Claim C3. When iteration \<open>k\<close> of a batch fails, the Q-table after the request is the
  table reached by the iterations before \<open>k\<close>, carried on through the iterations after
  \<open>k\<close>: the earlier updates are kept, the failing iteration is skipped and the later ones
  still run. The view answers with a response, and for any \<open>batch_train\<close> it commits the
  table as that call left it.
\<close>

theorem training_failure_skipped:
  assumes "py_int py (data_get data ''iterations'' (PInt 100)) = Inr n"
      and "k < nat n"
      and "train_iteration sv k (data_get data ''supplier_ids'' PNone)
             (fold (train_one sv (data_get data ''supplier_ids'' PNone)) [0..<k] qt) = Inl e"
  shows "snd (ManualTrainingView_post py (batch_train sv) data qt) =
           fold (train_one sv (data_get data ''supplier_ids'' PNone)) [Suc k..<nat n]
             (fold (train_one sv (data_get data ''supplier_ids'' PNone)) [0..<k] qt) \<and>
         (\<exists>r. fst (ManualTrainingView_post py (batch_train sv) data qt) = Inr r) \<and>
         (\<forall>bt. snd (ManualTrainingView_post py bt data qt) =
                 snd (bt n (data_get data ''supplier_ids'' PNone) qt))"
proof (intro conjI allI)
  show "snd (ManualTrainingView_post py (batch_train sv) data qt) =
           fold (train_one sv (data_get data ''supplier_ids'' PNone)) [Suc k..<nat n]
             (fold (train_one sv (data_get data ''supplier_ids'' PNone)) [0..<k] qt)"
    using training_table(1) [OF assms(1), of "batch_train sv" qt]
      fold_train_skip [OF assms(2,3)]
    by (simp add: batch_train_def)
  show "\<exists>r. fst (ManualTrainingView_post py (batch_train sv) data qt) = Inr r"
    by (rule training_table(2) [OF assms(1)])
  fix bt
  show "snd (ManualTrainingView_post py bt data qt) =
                 snd (bt n (data_get data ''supplier_ids'' PNone) qt)"
    by (rule training_table(1) [OF assms(1)])
qed

text \<open>
  In the sample batch of three iterations the second one fails; the table holds the
  updates of the first and the third.
\<close>

theorem training_failure_skipped_witness:
  "snd (ManualTrainingView_post sample_builtins (batch_train sample_services)
          [''iterations'' \<mapsto> PInt 3] []) =
     [\<lparr>entry_state = high_state, entry_action = tier_1, q_value = 2, update_count = 2\<rparr>] \<and>
   train_iteration sample_services 1 PNone
     [\<lparr>entry_state = high_state, entry_action = tier_1, q_value = 0, update_count = 1\<rparr>] =
     Inl (ServiceError ''no metrics'')"
proof -
  let ?data = "[''iterations'' \<mapsto> PInt 3]"
  have ids: "data_get ?data ''supplier_ids'' PNone = PNone"
    by (simp add: data_get_def)
  have f0: "fold (train_one sample_services PNone) [0..<1] [] =
      [\<lparr>entry_state = high_state, entry_action = tier_1, q_value = 0, update_count = 1\<rparr>]"
    by (simp add: sample_defs train_one_def upsert_def)
  have f1: "train_iteration sample_services 1 PNone
     [\<lparr>entry_state = high_state, entry_action = tier_1, q_value = 0, update_count = 1\<rparr>] =
     Inl (ServiceError ''no metrics'')"
    by (simp add: sample_defs)
  have h1: "py_int sample_builtins (data_get ?data ''iterations'' (PInt 100)) = Inr 3"
    by (simp add: data_get_def)
  have h2: "(1::nat) < nat 3" by simp
  have h3: "train_iteration sample_services 1 (data_get ?data ''supplier_ids'' PNone)
      (fold (train_one sample_services (data_get ?data ''supplier_ids'' PNone)) [0..<1] []) =
      Inl (ServiceError ''no metrics'')"
    unfolding ids f0 by (rule f1)
  have u: "[Suc 1..<nat 3] = [2]"
    by (simp add: upt_rec)
  have "snd (ManualTrainingView_post sample_builtins (batch_train sample_services) ?data []) =
        fold (train_one sample_services PNone) [Suc 1..<nat 3]
          (fold (train_one sample_services PNone) [0..<1] [])"
    using training_failure_skipped [OF h1 h2 h3, THEN conjunct1] unfolding ids .
  also have "\<dots> = [\<lparr>entry_state = high_state, entry_action = tier_1, q_value = 2, update_count = 2\<rparr>]"
    unfolding u f0 by (simp add: sample_defs train_one_def upsert_def)
  finally show ?thesis using f1 by simp
qed

section \<open>Q-values of absent entries\<close>



lemma q_values_of_all_absent:
  "\<forall>a \<in> set actions. objects_get qt state (Some a) = Inl DoesNotExist \<Longrightarrow>
   q_values_of qt state actions =
     Inr (map (\<lambda>a. \<lparr> qv_action = name a, qv_q_value = 0, qv_update_count = 0 \<rparr>) actions)"
  by (induction actions) simp_all








section \<open>Q-table export\<close>

lemma order_by_desc_sorted: "sorted_wrt (\<lambda>x y. key y \<le> key x) (order_by_desc key rows)"
proof -
  have "sorted (map (\<lambda>e. - key e) (sort_key (\<lambda>e. - key e) rows))" by (rule sorted_sort_key)
  then show ?thesis by (simp add: order_by_desc_def sorted_map)
qed

lemma order_by_desc_mset: "mset (order_by_desc key rows) = mset rows"
  by (simp add: order_by_desc_def)

lemma order_by_desc_length: "length (order_by_desc key rows) = length rows"
  by (simp add: order_by_desc_def)

lemma sorted_wrt_take_drop:
  assumes "sorted_wrt P xs"
  shows "\<forall>r \<in> set (take k xs). \<forall>e \<in> set (drop k xs). P r e"
proof -
  from assms have "sorted_wrt P (take k xs @ drop k xs)" by simp
  then show ?thesis unfolding sorted_wrt_append by blast
qed

text \<open>The filters keep exactly the stored entries that pass every provided test.\<close>

lemma q_table_filtered_eq:
  assumes "q_table_filtered py be qp qt = Inr q3"
  shows "q3 = filter (\<lambda>e.
           (case qp ''state'' of None \<Rightarrow> True
            | Some s \<Rightarrow> s = [] \<or> name_contains be (name (entry_state e)) s) \<and>
           (case qp ''action'' of None \<Rightarrow> True
            | Some a \<Rightarrow> a = [] \<or> name_contains be (name (entry_action e)) a) \<and>
           (case qp ''min_q_value'' of None \<Rightarrow> True
            | Some m \<Rightarrow> m = [] \<or>
                (case float_of_str py m of
                   None \<Rightarrow> False
                 | Some (Fin r) \<Rightarrow> r \<le> q_value e
                 | Some x \<Rightarrow> (\<exists>t. gte_nonfinite be x = Inr t \<and> t (q_value e))))) qt"
proof -
  define S where "S = (\<lambda>e::qentry. case qp ''state'' of None \<Rightarrow> True
            | Some s \<Rightarrow> s = [] \<or> name_contains be (name (entry_state e)) s)"
  define A where "A = (\<lambda>e::qentry. case qp ''action'' of None \<Rightarrow> True
            | Some a \<Rightarrow> a = [] \<or> name_contains be (name (entry_action e)) a)"
  define M where "M = (\<lambda>e::qentry. case qp ''min_q_value'' of None \<Rightarrow> True
            | Some m \<Rightarrow> m = [] \<or>
                (case float_of_str py m of
                   None \<Rightarrow> False
                 | Some (Fin r) \<Rightarrow> r \<le> q_value e
                 | Some x \<Rightarrow> (\<exists>t. gte_nonfinite be x = Inr t \<and> t (q_value e))))"
  define q1 where "q1 = (case qp ''state'' of None \<Rightarrow> qt | Some s \<Rightarrow>
                  if s = [] then qt
                  else filter (\<lambda>e. name_contains be (name (entry_state e)) s) qt)"
  define q2 where "q2 = (case qp ''action'' of None \<Rightarrow> q1 | Some a \<Rightarrow>
                  if a = [] then q1
                  else filter (\<lambda>e. name_contains be (name (entry_action e)) a) q1)"
  have q1: "q1 = filter S qt"
    by (auto simp: q1_def S_def split: option.splits)
  have q2: "q2 = filter A q1"
    by (auto simp: q2_def A_def split: option.splits)
  from assms have m: "(case qp ''min_q_value'' of None \<Rightarrow> Inr q2 | Some m \<Rightarrow>
           if m = [] then Inr q2
           else (case float_of_str py m of
                   None \<Rightarrow> Inl ValueError
                 | Some (Fin r) \<Rightarrow> Inr (filter (\<lambda>e. r \<le> q_value e) q2)
                 | Some x \<Rightarrow> (case gte_nonfinite be x of Inl e \<Rightarrow> Inl e
                              | Inr t \<Rightarrow> Inr (filter (\<lambda>e. t (q_value e)) q2)))) = Inr q3"
    unfolding q_table_filtered_def Let_def q1_def [symmetric] q2_def [symmetric] .
  have "q3 = filter M q2"
  proof (cases "qp ''min_q_value''")
    case None
    with m show ?thesis by (simp add: M_def)
  next
    case (Some mm)
    show ?thesis
    proof (cases "mm = []")
      case True
      with m Some show ?thesis by (simp add: M_def)
    next
      case False
      show ?thesis
      proof (cases "float_of_str py mm")
        case None
        with m Some False show ?thesis by simp
      next
        case parsed: (Some x)
        show ?thesis
        proof (cases "\<exists>r. x = Fin r")
          case True
          then obtain r where "x = Fin r" by blast
          with m Some False parsed show ?thesis by (simp add: M_def)
        next
          case nf: False
          show ?thesis
          proof (cases "gte_nonfinite be x")
            case (Inl e)
            with m Some False parsed nf show ?thesis by (cases x) simp_all
          next
            case (Inr t)
            with m Some False parsed nf show ?thesis by (cases x) (simp_all add: M_def)
          qed
        qed
      qed
    qed
  qed
  then have "q3 = filter (\<lambda>e. S e \<and> A e \<and> M e) qt"
    by (simp add: q1 q2 conj_ac)
  then show ?thesis
    unfolding S_def A_def M_def .
qed

lemma q_table_ok_source:
  assumes "QTableView_get py be qp qt = Response (QtOk rows n tot) code"
  shows "\<exists>limit q3.
           (case qp ''limit'' of None \<Rightarrow> limit = 100 | Some l \<Rightarrow> int_of_str py l = Some limit) \<and>
           0 \<le> limit \<and> q_table_filtered py be qp qt = Inr q3 \<and>
           rows = map (\<lambda>e. \<lparr> qt_state = name (entry_state e), qt_action = name (entry_action e),
                             qt_q_value = q_value e, qt_update_count = update_count e \<rparr>)
                    (take (nat limit) (order_by_desc q_value q3)) \<and>
           n = length rows \<and> tot = length qt"
proof -
  from assms obtain r where r: "q_table_try py be qp qt = Inr r" "r = Response (QtOk rows n tot) code"
    by (auto simp: QTableView_get_def split: sum.splits)
  from r obtain limit q3 where
    l: "(case qp ''limit'' of None \<Rightarrow> Inr 100
         | Some l \<Rightarrow> (case int_of_str py l of None \<Rightarrow> Inl ValueError | Some i \<Rightarrow> Inr i)) = Inr limit"
    and q3: "q_table_filtered py be qp qt = Inr q3"
    and nn: "0 \<le> limit"
    and rows: "rows = map (\<lambda>e. \<lparr> qt_state = name (entry_state e), qt_action = name (entry_action e),
                             qt_q_value = q_value e, qt_update_count = update_count e \<rparr>)
                    (take (nat limit) (order_by_desc q_value q3))"
    and cnt: "n = length rows" "tot = length qt"
    unfolding q_table_try_def Let_def
    by (auto split: sum.splits if_splits)
  from l have "(case qp ''limit'' of None \<Rightarrow> limit = 100 | Some l \<Rightarrow> int_of_str py l = Some limit)"
    by (auto split: option.splits)
  with q3 nn rows cnt show ?thesis by blast
qed

text \<open>
  Claim C7. When the export returns entries, let the matching entries be the stored
  entries whose state name contains the given state substring, whose action name contains
  the given action substring and whose value is at least the given minimum (each test
  applied when its parameter is provided and not empty). The returned rows are the rows of
  matching entries, in descending order of \<open>q_value\<close>; their number is the smaller of
  \<open>limit\<close> (100 when none is given) and the number of matching entries; every matching
  entry left out has a value no greater than any returned one; and the total reported is
  the number of all stored entries.
\<close>

theorem q_table_export:
  assumes "QTableView_get py be qp qt = Response (QtOk rows n tot) code"
  shows "tot = length qt \<and> n = length rows \<and>
         sorted_wrt (\<lambda>x y. qt_q_value y \<le> qt_q_value x) rows \<and>
         (\<exists>limit matching es rest.
            (case qp ''limit'' of None \<Rightarrow> limit = 100
             | Some l \<Rightarrow> int_of_str py l = Some limit) \<and>
            0 \<le> limit \<and>
            matching = filter (\<lambda>e.
              (case qp ''state'' of None \<Rightarrow> True
               | Some s \<Rightarrow> s = [] \<or> name_contains be (name (entry_state e)) s) \<and>
              (case qp ''action'' of None \<Rightarrow> True
               | Some a \<Rightarrow> a = [] \<or> name_contains be (name (entry_action e)) a) \<and>
              (case qp ''min_q_value'' of None \<Rightarrow> True
               | Some m \<Rightarrow> m = [] \<or>
                   (case float_of_str py m of
                      None \<Rightarrow> False
                    | Some (Fin r) \<Rightarrow> r \<le> q_value e
                    | Some x \<Rightarrow> (\<exists>t. gte_nonfinite be x = Inr t \<and> t (q_value e))))) qt \<and>
            rows = map (\<lambda>e. \<lparr> qt_state = name (entry_state e), qt_action = name (entry_action e),
                             qt_q_value = q_value e, qt_update_count = update_count e \<rparr>) es \<and>
            length es = min (nat limit) (length matching) \<and>
            mset (es @ rest) = mset matching \<and>
            sorted_wrt (\<lambda>x y. q_value y \<le> q_value x) es \<and>
            (\<forall>r \<in> set es. \<forall>e \<in> set rest. q_value e \<le> q_value r))"
proof -
  let ?P = "(\<lambda>e.
              (case qp ''state'' of None \<Rightarrow> True
               | Some s \<Rightarrow> s = [] \<or> name_contains be (name (entry_state e)) s) \<and>
              (case qp ''action'' of None \<Rightarrow> True
               | Some a \<Rightarrow> a = [] \<or> name_contains be (name (entry_action e)) a) \<and>
              (case qp ''min_q_value'' of None \<Rightarrow> True
               | Some m \<Rightarrow> m = [] \<or>
                   (case float_of_str py m of
                      None \<Rightarrow> False
                    | Some (Fin r) \<Rightarrow> r \<le> q_value e
                    | Some x \<Rightarrow> (\<exists>t. gte_nonfinite be x = Inr t \<and> t (q_value e)))))"
  let ?row = "(\<lambda>e. \<lparr> qt_state = name (entry_state e), qt_action = name (entry_action e),
                             qt_q_value = q_value e, qt_update_count = update_count e \<rparr>)"
  from q_table_ok_source [OF assms] obtain limit q3 where
    l: "(case qp ''limit'' of None \<Rightarrow> limit = 100 | Some l \<Rightarrow> int_of_str py l = Some limit)"
    and nn: "0 \<le> limit"
    and q3: "q_table_filtered py be qp qt = Inr q3"
    and rows: "rows = map ?row (take (nat limit) (order_by_desc q_value q3))"
    and cnt: "n = length rows" "tot = length qt"
    by blast
  have m: "q3 = filter ?P qt"
    by (rule q_table_filtered_eq [OF q3])
  define es where "es = take (nat limit) (order_by_desc q_value q3)"
  define rest where "rest = drop (nat limit) (order_by_desc q_value q3)"
  have s: "sorted_wrt (\<lambda>x y. q_value y \<le> q_value x) (order_by_desc q_value q3)"
    by (rule order_by_desc_sorted)
  have e1: "rows = map ?row es"
    by (simp add: rows es_def)
  have e2: "length es = min (nat limit) (length q3)"
    by (simp add: es_def order_by_desc_length min.commute)
  have e3: "mset (es @ rest) = mset q3"
    by (simp add: es_def rest_def order_by_desc_mset)
  have e4: "sorted_wrt (\<lambda>x y. q_value y \<le> q_value x) es"
    unfolding es_def by (rule sorted_wrt_take [OF s])
  have e5: "\<forall>r \<in> set es. \<forall>e \<in> set rest. q_value e \<le> q_value r"
    unfolding es_def rest_def by (rule sorted_wrt_take_drop [OF s])
  from e4 have e6: "sorted_wrt (\<lambda>x y. qt_q_value y \<le> qt_q_value x) rows"
    by (simp add: e1 sorted_wrt_map)
  from l nn m e1 e2 e3 e4 e5 have
    "\<exists>limit matching es rest.
            (case qp ''limit'' of None \<Rightarrow> limit = 100
             | Some l \<Rightarrow> int_of_str py l = Some limit) \<and>
            0 \<le> limit \<and>
            matching = filter ?P qt \<and>
            rows = map ?row es \<and>
            length es = min (nat limit) (length matching) \<and>
            mset (es @ rest) = mset matching \<and>
            sorted_wrt (\<lambda>x y. q_value y \<le> q_value x) es \<and>
            (\<forall>r \<in> set es. \<forall>e \<in> set rest. q_value e \<le> q_value r)"
    by blast
  with cnt e6 show ?thesis by blast
qed

lemma sample_q_table:
  "QTableView_get sample_builtins sample_backend
     [''limit'' \<mapsto> ''2'', ''action'' \<mapsto> ''TIER'', ''min_q_value'' \<mapsto> ''0.5''] sample_table =
   Response (QtOk
     [\<lparr>qt_state = ''Q_LOW'', qt_action = ''RANK_TIER_2'', qt_q_value = 5, qt_update_count = 4\<rparr>,
      \<lparr>qt_state = ''Q_HIGH'', qt_action = ''RANK_TIER_2'', qt_q_value = 3, qt_update_count = 1\<rparr>]
     2 5) 200"
  by (simp add: sample_defs sample_backend_def low_state_def sample_table_def QTableView_get_def
      q_table_try_def q_table_filtered_def order_by_desc_def sublist_code Let_def)

text \<open>
  Of the five sample entries three are rank tiers with a value of at least 0.5; with the
  limit 2 the two with the highest values are returned, the higher one first, and the
  entry with the value 1 is left out.
\<close>

theorem q_table_export_witness:
  "\<exists>es rest.
     [\<lparr>qt_state = ''Q_LOW'', qt_action = ''RANK_TIER_2'', qt_q_value = 5, qt_update_count = 4\<rparr>,
      \<lparr>qt_state = ''Q_HIGH'', qt_action = ''RANK_TIER_2'', qt_q_value = 3, qt_update_count = 1\<rparr>] =
       map (\<lambda>e. \<lparr> qt_state = name (entry_state e), qt_action = name (entry_action e),
                   qt_q_value = q_value e, qt_update_count = update_count e \<rparr>) es \<and>
     length es = 2 \<and>
     mset (es @ rest) =
       mset [\<lparr>entry_state = high_state, entry_action = tier_2, q_value = 3, update_count = 1\<rparr>,
             \<lparr>entry_state = low_state, entry_action = tier_1, q_value = 1, update_count = 2\<rparr>,
             \<lparr>entry_state = low_state, entry_action = tier_2, q_value = 5, update_count = 4\<rparr>] \<and>
     (\<forall>r \<in> set es. \<forall>e \<in> set rest. q_value e \<le> q_value r)"
proof -
  let ?qp = "[''limit'' \<mapsto> ''2'', ''action'' \<mapsto> ''TIER'', ''min_q_value'' \<mapsto> ''0.5'']"
  let ?rows = "[\<lparr>qt_state = ''Q_LOW'', qt_action = ''RANK_TIER_2'', qt_q_value = 5, qt_update_count = 4\<rparr>,
      \<lparr>qt_state = ''Q_HIGH'', qt_action = ''RANK_TIER_2'', qt_q_value = 3, qt_update_count = 1\<rparr>]"
  from q_table_export [OF sample_q_table] obtain limit matching es rest where
    l: "(case ?qp ''limit'' of None \<Rightarrow> limit = 100
         | Some l \<Rightarrow> int_of_str sample_builtins l = Some limit)"
    and m: "matching = filter (\<lambda>e.
              (case ?qp ''state'' of None \<Rightarrow> True
               | Some s \<Rightarrow> s = [] \<or> name_contains sample_backend (name (entry_state e)) s) \<and>
              (case ?qp ''action'' of None \<Rightarrow> True
               | Some a \<Rightarrow> a = [] \<or> name_contains sample_backend (name (entry_action e)) a) \<and>
              (case ?qp ''min_q_value'' of None \<Rightarrow> True
               | Some m \<Rightarrow> m = [] \<or>
                   (case float_of_str sample_builtins m of
                      None \<Rightarrow> False
                    | Some (Fin r) \<Rightarrow> r \<le> q_value e
                    | Some x \<Rightarrow> (\<exists>t. gte_nonfinite sample_backend x = Inr t \<and> t (q_value e)))))
            sample_table"
    and r: "?rows = map (\<lambda>e. \<lparr> qt_state = name (entry_state e), qt_action = name (entry_action e),
                   qt_q_value = q_value e, qt_update_count = update_count e \<rparr>) es"
    and len: "length es = min (nat limit) (length matching)"
    and ms: "mset (es @ rest) = mset matching"
    and cut: "\<forall>r \<in> set es. \<forall>e \<in> set rest. q_value e \<le> q_value r"
    by (elim exE conjE) (rule that; assumption)
  from l have limit: "limit = 2"
    by (simp add: sample_builtins_def)
  from m have matching: "matching =
      [\<lparr>entry_state = high_state, entry_action = tier_2, q_value = 3, update_count = 1\<rparr>,
       \<lparr>entry_state = low_state, entry_action = tier_1, q_value = 1, update_count = 2\<rparr>,
       \<lparr>entry_state = low_state, entry_action = tier_2, q_value = 5, update_count = 4\<rparr>]"
    by (simp add: sample_defs sample_backend_def low_state_def sample_table_def sublist_code)
  from len have "length es = 2"
    by (simp add: limit matching)
  with r ms cut have "?rows = map (\<lambda>e. \<lparr> qt_state = name (entry_state e), qt_action = name (entry_action e),
                   qt_q_value = q_value e, qt_update_count = update_count e \<rparr>) es \<and>
     length es = 2 \<and>
     mset (es @ rest) =
       mset [\<lparr>entry_state = high_state, entry_action = tier_2, q_value = 3, update_count = 1\<rparr>,
             \<lparr>entry_state = low_state, entry_action = tier_1, q_value = 1, update_count = 2\<rparr>,
             \<lparr>entry_state = low_state, entry_action = tier_2, q_value = 5, update_count = 4\<rparr>] \<and>
     (\<forall>r \<in> set es. \<forall>e \<in> set rest. q_value e \<le> q_value r)"
    unfolding matching by (intro conjI)
  then show ?thesis by (intro exI)
qed

end
